theory Spec2Isabelle
  imports Main "HOL-Library.AList"
begin

section \<open>Values exchanged with clients\<close>

text \<open>
  The handlers of \<^verbatim>\<open>src/socket/socketHandler.js\<close> receive values decoded from the wire:
  undefined (the handler was given no argument), null, a boolean, a number, a string, an
  array or an object. The handlers never compute with a number, they only copy it and
  print it inside a room name, so a number is represented by the string that JavaScript
  prints for it (\<^verbatim>\<open>5\<close>, \<^verbatim>\<open>0.5\<close>, \<^verbatim>\<open>1e+21\<close>, \<^verbatim>\<open>NaN\<close>). An object is a mapping
  from property names to values; the order of its properties is not recorded, since the
  handlers only read properties by name and copy them. A value from the wire is never a
  function. Binary attachments are not modelled.
\<close>

datatype jsval =
    JUndefined
  | JNull
  | JBool bool
  | JNum string
  | JStr string
  | JArr "jsval list"
  | JObj "string \<Rightarrow> jsval option"

text \<open>The errors of the module: an \<^verbatim>\<open>Error\<close> with its message, and the
  \<^verbatim>\<open>TypeError\<close> raised by reading a property of undefined or null, or by converting
  to a string an object that cannot be converted.\<close>

datatype js_error = Error string | TypeError

text \<open>JavaScript truthiness, as the test \<^verbatim>\<open>!token\<close> uses it: the numbers that are
  falsy are zero (printed \<^verbatim>\<open>0\<close>, also when negative) and \<^verbatim>\<open>NaN\<close>.\<close>

fun truthy :: "jsval \<Rightarrow> bool" where
  "truthy JUndefined = False"
| "truthy JNull = False"
| "truthy (JBool b) = b"
| "truthy (JNum n) = (n \<noteq> ''0'' \<and> n \<noteq> ''NaN'')"
| "truthy (JStr s) = (s \<noteq> [])"
| "truthy (JArr xs) = True"
| "truthy (JObj m) = True"

fun nullish :: "jsval \<Rightarrow> bool" where
  "nullish JUndefined = True"
| "nullish JNull = True"
| "nullish v = False"

text \<open>
  \<^verbatim>\<open>data.k\<close>: reading a property of undefined or null raises a TypeError; an object
  yields the property, or undefined when it has none of that name; a boolean, a number,
  a string or an array has none of the properties the handlers read (\<^verbatim>\<open>title\<close>,
  \<^verbatim>\<open>id\<close>, \<^verbatim>\<open>questionId\<close>, \<^verbatim>\<open>sessionId\<close>, \<^verbatim>\<open>message\<close>, \<^verbatim>\<open>likeCount\<close>,
  \<^verbatim>\<open>targetUserId\<close>, \<^verbatim>\<open>userId\<close>), so the read yields undefined.
\<close>

fun get_prop :: "jsval \<Rightarrow> string \<Rightarrow> js_error + jsval" where
  "get_prop JUndefined k = Inl TypeError"
| "get_prop JNull k = Inl TypeError"
| "get_prop (JObj m) k = Inr (case m k of None \<Rightarrow> JUndefined | Some v \<Rightarrow> v)"
| "get_prop (JBool b) k = Inr JUndefined"
| "get_prop (JNum n) k = Inr JUndefined"
| "get_prop (JStr s) k = Inr JUndefined"
| "get_prop (JArr xs) k = Inr JUndefined"

text \<open>
  The conversion of a value to a string that a template literal
  \<^verbatim>\<open>`question:${v}`\<close> performs. A number prints as itself. An array prints its
  elements joined by commas, an undefined or null element as the empty string. An object
  without a property \<^verbatim>\<open>toString\<close> of its own prints \<^verbatim>\<open>[object Object]\<close>; one with such
  a property cannot be converted, since the property is no function and neither
  \<^verbatim>\<open>valueOf\<close> yields a primitive value: the conversion raises a TypeError.
\<close>

fun to_string :: "jsval \<Rightarrow> js_error + string"
  and join_strings :: "jsval list \<Rightarrow> js_error + string" where
  "to_string JUndefined = Inr ''undefined''"
| "to_string JNull = Inr ''null''"
| "to_string (JBool b) = Inr (if b then ''true'' else ''false'')"
| "to_string (JNum n) = Inr n"
| "to_string (JStr s) = Inr s"
| "to_string (JArr xs) = join_strings xs"
| "to_string (JObj m) =
     (if m ''toString'' = None then Inr ''[object Object]'' else Inl TypeError)"
| "join_strings [] = Inr []"
| "join_strings (x # xs) =
     (case (if nullish x then Inr [] else to_string x) of
       Inl e \<Rightarrow> Inl e
     | Inr s \<Rightarrow>
         (if xs = [] then Inr s
          else (case join_strings xs of
                 Inl e \<Rightarrow> Inl e
               | Inr t \<Rightarrow> Inr (s @ '','' @ t))))"

text \<open>A room name built by a template literal from a property of the payload:
  \<^verbatim>\<open>`question:${data.questionId}`\<close> is \<open>room_name ''question:'' data ''questionId''\<close>.\<close>

definition room_name :: "string \<Rightarrow> jsval \<Rightarrow> string \<Rightarrow> js_error + string" where
  "room_name prefix data k =
     (case get_prop data k of
       Inl e \<Rightarrow> Inl e
     | Inr v \<Rightarrow> (case to_string v of Inl e \<Rightarrow> Inl e | Inr s \<Rightarrow> Inr (prefix @ s)))"

text \<open>
  The own enumerable properties that the spread \<^verbatim>\<open>{...data}\<close> copies: those of an
  object; the indexed elements of an array and the indexed characters of a string (the
  index printed in decimal digits); none for undefined, null, a boolean or a number.
\<close>

fun digits :: "nat \<Rightarrow> string" where
  "digits n =
     (if n < 10 then [char_of (48 + n)]
      else digits (n div 10) @ [char_of (48 + n mod 10)])"

fun own_props :: "jsval \<Rightarrow> (string \<Rightarrow> jsval option)" where
  "own_props (JObj m) = m"
| "own_props (JArr xs) = map_of (zip (map digits [0..<length xs]) xs)"
| "own_props (JStr s) = map_of (zip (map digits [0..<length s]) (map (\<lambda>c. JStr [c]) s))"
| "own_props JUndefined = Map.empty"
| "own_props JNull = Map.empty"
| "own_props (JBool b) = Map.empty"
| "own_props (JNum n) = Map.empty"

text \<open>
  A property of an object literal built by a handler is a value, or the \<^verbatim>\<open>Date\<close>
  object that \<^verbatim>\<open>new Date()\<close> creates (the server's clock in milliseconds, an input
  of every handler). A payload handed to \<^verbatim>\<open>emit\<close> is such an object literal, or a
  value passed on as it is.
\<close>

datatype outval = Val jsval | Date int

type_synonym outobj = "string \<Rightarrow> outval option"

datatype payload = Obj outobj | Raw jsval

definition spread :: "jsval \<Rightarrow> outobj" where
  "spread data = (\<lambda>k. map_option Val (own_props data k))"

section \<open>Users, sockets and the server state\<close>

text \<open>
  The user document that \<^verbatim>\<open>User.findById\<close> returns, with the fields the module reads
  (\<^verbatim>\<open>_id\<close> as \<open>uid\<close>, the object id written as the string that \<^verbatim>\<open>toString\<close>
  gives and that keys the registry). A socket after the authentication middleware
  carries its transport identifier (\<^verbatim>\<open>socket.id\<close> as \<open>sid\<close>), \<^verbatim>\<open>socket.userId\<close>
  and \<^verbatim>\<open>socket.user\<close> (as \<open>suser\<close>; \<open>cuser\<close> is the \<^verbatim>\<open>user\<close> of a registry entry).
\<close>

record user =
  uid :: string
  name :: string
  initials :: string
  university :: string

record socket =
  sid :: string
  userId :: string
  suser :: user

text \<open>An entry of \<^verbatim>\<open>connectedUsers\<close>; \<open>status\<close> is undefined until a
  \<^verbatim>\<open>status_update\<close> sets it.\<close>

record conn =
  socketId :: string
  cuser :: user
  connectedAt :: int
  status :: jsval

text \<open>
  \<^verbatim>\<open>connectedUsers\<close> is a JavaScript \<^verbatim>\<open>Map\<close>: an association list in insertion
  order, where \<^verbatim>\<open>set\<close> replaces the value of a key that is present at its place and
  appends a new key at the end, and \<^verbatim>\<open>delete\<close> removes the key.
\<close>

definition map_get :: "(string \<times> 'v) list \<Rightarrow> string \<Rightarrow> 'v option" where
  "map_get m k = map_of m k"

definition map_set :: "(string \<times> 'v) list \<Rightarrow> string \<Rightarrow> 'v \<Rightarrow> (string \<times> 'v) list" where
  "map_set m k v = AList.update k v m"

definition map_delete :: "(string \<times> 'v) list \<Rightarrow> string \<Rightarrow> (string \<times> 'v) list" where
  "map_delete m k = AList.delete k m"

definition map_size :: "(string \<times> 'v) list \<Rightarrow> nat" where
  "map_size m = length m"

definition map_values :: "(string \<times> 'v) list \<Rightarrow> 'v list" where
  "map_values m = map snd m"

text \<open>
  The state of the server: the registry \<^verbatim>\<open>connectedUsers\<close>, and the state the
  transport library keeps: the connected sockets by identifier, and for every room name
  the identifiers of its members. The transport is not code of this repository; it is
  modelled by its documented behaviour: an admitted socket joins the room named by its
  own identifier, \<^verbatim>\<open>join\<close> and \<^verbatim>\<open>leave\<close> add and remove the socket from a room, a
  closing socket leaves every room before its \<^verbatim>\<open>disconnect\<close> handler runs.
\<close>

record server =
  connectedUsers :: "(string \<times> conn) list"
  sockets :: "string \<Rightarrow> socket option"
  rooms :: "string \<Rightarrow> string set"

definition init :: server where
  "init = \<lparr>connectedUsers = [], sockets = Map.empty, rooms = (\<lambda>r. {})\<rparr>"

definition join :: "(string \<Rightarrow> string set) \<Rightarrow> string \<Rightarrow> string \<Rightarrow> (string \<Rightarrow> string set)" where
  "join rs s r = rs(r := insert s (rs r))"

definition leave :: "(string \<Rightarrow> string set) \<Rightarrow> string \<Rightarrow> string \<Rightarrow> (string \<Rightarrow> string set)" where
  "leave rs s r = rs(r := rs r - {s})"

definition leave_all :: "(string \<Rightarrow> string set) \<Rightarrow> string \<Rightarrow> (string \<Rightarrow> string set)" where
  "leave_all rs s = (\<lambda>r. rs r - {s})"

section \<open>The authentication middleware\<close>

text \<open>
  \<^verbatim>\<open>io.use(async (socket, next) => ...)\<close>. The two collaborators are parameters:
  \<open>jwt_verify token\<close> is \<^verbatim>\<open>jwt.verify(token, secret)\<close>, \<open>None\<close> when it throws and
  the decoded payload otherwise; \<open>findById v\<close> is \<^verbatim>\<open>User.findById(v)\<close>, \<open>None\<close> when
  the query rejects, \<open>Some None\<close> when it resolves to null, \<open>Some (Some u)\<close> when it
  finds the document \<open>u\<close>. The result is the error given to \<^verbatim>\<open>next\<close>, or the socket
  with \<^verbatim>\<open>userId\<close> and \<^verbatim>\<open>user\<close> attached. Every exception inside the \<^verbatim>\<open>try\<close>
  block reaches the \<^verbatim>\<open>catch\<close>, which answers \<^verbatim>\<open>Authentication error\<close>.
\<close>

type_synonym verifier = "jsval \<Rightarrow> jsval option"

type_synonym user_store = "jsval \<Rightarrow> user option option"

definition authenticate :: "verifier \<Rightarrow> user_store \<Rightarrow> string \<Rightarrow> jsval \<Rightarrow> js_error + socket" where
  "authenticate jwt_verify findById sock_id token =
     (if \<not> truthy token then Inl (Error ''Authentication error'')
      else
        (case jwt_verify token of
          None \<Rightarrow> Inl (Error ''Authentication error'')
        | Some decoded \<Rightarrow>
            (case get_prop decoded ''userId'' of
              Inl e \<Rightarrow> Inl (Error ''Authentication error'')
            | Inr claimed \<Rightarrow>
                (case findById claimed of
                  None \<Rightarrow> Inl (Error ''Authentication error'')
                | Some None \<Rightarrow> Inl (Error ''User not found'')
                | Some (Some u) \<Rightarrow> Inr \<lparr>sid = sock_id, userId = uid u, suser = u\<rparr>))))"

section \<open>Outbound events\<close>

text \<open>
  What one call of \<^verbatim>\<open>emit\<close> sends: \<^verbatim>\<open>socket.to(room).emit\<close> addresses the members
  of a room other than the sending socket, \<^verbatim>\<open>io.to(room).emit\<close> every member of a
  room, \<^verbatim>\<open>io.emit\<close> every connected socket. \<open>recipients\<close> resolves an address
  against the rooms of the transport.
\<close>

datatype target = Others string string | Room string | Everyone

record emission =
  target :: target
  event :: string
  payload :: payload

fun recipients :: "server \<Rightarrow> target \<Rightarrow> string set" where
  "recipients st (Others r s) = rooms st r - {s}"
| "recipients st (Room r) = rooms st r"
| "recipients st Everyone = dom (sockets st)"

definition university_room :: "socket \<Rightarrow> string" where
  "university_room sock = ''university:'' @ university (suser sock)"

section \<open>The connection handler\<close>

text \<open>
  The transport admits an authenticated socket (\<open>admit\<close>), then the handler of
  \<^verbatim>\<open>io.on('connection', ...)\<close> runs: it writes the registry entry and joins the
  university room and the global room. The update of \<^verbatim>\<open>lastSeen\<close> in the user store
  is fire-and-forget and lies outside this state. A handshake that the middleware rejects
  never reaches the transport's admission nor the handler.
\<close>

definition admit :: "server \<Rightarrow> socket \<Rightarrow> server" where
  "admit st sock =
     st\<lparr>sockets := (sockets st)(sid sock \<mapsto> sock),
        rooms := join (rooms st) (sid sock) (sid sock)\<rparr>"

definition on_connection :: "server \<Rightarrow> socket \<Rightarrow> int \<Rightarrow> server" where
  "on_connection st sock now =
     st\<lparr>connectedUsers :=
          map_set (connectedUsers st) (userId sock)
            \<lparr>socketId = sid sock, cuser = suser sock, connectedAt = now, status = JUndefined\<rparr>,
        rooms := join (join (rooms st) (sid sock) (university_room sock)) (sid sock) ''global''\<rparr>"

definition handshake ::
  "verifier \<Rightarrow> user_store \<Rightarrow> server \<Rightarrow> string \<Rightarrow> jsval \<Rightarrow> int \<Rightarrow> server \<times> js_error option" where
  "handshake jwt_verify findById st sock_id token now =
     (case authenticate jwt_verify findById sock_id token of
       Inl e \<Rightarrow> (st, Some e)
     | Inr sock \<Rightarrow> (on_connection (admit st sock) sock now, None))"

section \<open>The event handlers\<close>

text \<open>
  The handlers are anonymous functions registered with \<^verbatim>\<open>socket.on\<close>; each is named
  here \<open>on_\<close> followed by its event. A handler takes the state, the socket of its
  closure, the argument of the event and the clock. It returns the new state with the
  emissions in order (\<open>Inr\<close>), or the exception that escapes it with the state it leaves
  behind (\<open>Inl\<close>). A handler that raises has emitted nothing before; only
  \<^verbatim>\<open>join_room\<close> and \<^verbatim>\<open>leave_room\<close> can raise after they changed the state, in the
  template literal of their log line.
\<close>

type_synonym outcome = "js_error \<times> server + server \<times> emission list"

definition on_new_question :: "server \<Rightarrow> socket \<Rightarrow> jsval \<Rightarrow> int \<Rightarrow> outcome" where
  "on_new_question st sock data now =
     (case get_prop data ''title'' of
       Inl e \<Rightarrow> Inl (e, st)
     | Inr title \<Rightarrow>
         (case get_prop data ''id'' of
           Inl e \<Rightarrow> Inl (e, st)
         | Inr qid \<Rightarrow>
             Inr (st,
               [\<lparr>target = Others (university_room sock) (sid sock),
                 event = ''new_question'',
                 payload = Obj ((spread data)
                   (''author'' \<mapsto> Val (JStr (name (suser sock))),
                    ''authorInitial'' \<mapsto> Val (JStr (initials (suser sock))),
                    ''university'' \<mapsto> Val (JStr (university (suser sock))),
                    ''timestamp'' \<mapsto> Date now))\<rparr>,
                \<lparr>target = Others ''global'' (sid sock),
                 event = ''question_trending'',
                 payload = Obj
                   [''questionId'' \<mapsto> Val qid,
                    ''title'' \<mapsto> Val title,
                    ''university'' \<mapsto> Val (JStr (university (suser sock)))]\<rparr>])))"

definition on_new_answer :: "server \<Rightarrow> socket \<Rightarrow> jsval \<Rightarrow> int \<Rightarrow> outcome" where
  "on_new_answer st sock data now =
     (case room_name ''question:'' data ''questionId'' of
       Inl e \<Rightarrow> Inl (e, st)
     | Inr room \<Rightarrow>
         Inr (st,
           [\<lparr>target = Others room (sid sock),
             event = ''new_answer'',
             payload = Obj ((spread data)
               (''author'' \<mapsto> Val (JStr (name (suser sock))),
                ''authorInitial'' \<mapsto> Val (JStr (initials (suser sock))),
                ''timestamp'' \<mapsto> Date now))\<rparr>]))"

definition on_live_chat :: "server \<Rightarrow> socket \<Rightarrow> jsval \<Rightarrow> int \<Rightarrow> outcome" where
  "on_live_chat st sock data now =
     (case get_prop data ''message'' of
       Inl e \<Rightarrow> Inl (e, st)
     | Inr message \<Rightarrow>
         (case room_name ''ama:'' data ''sessionId'' of
           Inl e \<Rightarrow> Inl (e, st)
         | Inr room \<Rightarrow>
             Inr (st,
               [\<lparr>target = Others room (sid sock),
                 event = ''live_chat'',
                 payload = Obj
                   [''message'' \<mapsto> Val message,
                    ''author'' \<mapsto> Val (JStr (name (suser sock))),
                    ''authorInitial'' \<mapsto> Val (JStr (initials (suser sock))),
                    ''timestamp'' \<mapsto> Date now]\<rparr>])))"

definition on_typing_start :: "server \<Rightarrow> socket \<Rightarrow> jsval \<Rightarrow> outcome" where
  "on_typing_start st sock data =
     (case room_name ''question:'' data ''questionId'' of
       Inl e \<Rightarrow> Inl (e, st)
     | Inr room \<Rightarrow>
         Inr (st,
           [\<lparr>target = Others room (sid sock),
             event = ''user_typing'',
             payload = Obj
               [''userId'' \<mapsto> Val (JStr (userId sock)),
                ''userName'' \<mapsto> Val (JStr (name (suser sock)))]\<rparr>]))"

definition on_typing_stop :: "server \<Rightarrow> socket \<Rightarrow> jsval \<Rightarrow> outcome" where
  "on_typing_stop st sock data =
     (case room_name ''question:'' data ''questionId'' of
       Inl e \<Rightarrow> Inl (e, st)
     | Inr room \<Rightarrow>
         Inr (st,
           [\<lparr>target = Others room (sid sock),
             event = ''user_stopped_typing'',
             payload = Obj [''userId'' \<mapsto> Val (JStr (userId sock))]\<rparr>]))"

definition on_question_liked :: "server \<Rightarrow> socket \<Rightarrow> jsval \<Rightarrow> outcome" where
  "on_question_liked st sock data =
     (case room_name ''question:'' data ''questionId'' of
       Inl e \<Rightarrow> Inl (e, st)
     | Inr room \<Rightarrow>
         (case get_prop data ''questionId'' of
           Inl e \<Rightarrow> Inl (e, st)
         | Inr qid \<Rightarrow>
             (case get_prop data ''likeCount'' of
               Inl e \<Rightarrow> Inl (e, st)
             | Inr likes \<Rightarrow>
                 Inr (st,
                   [\<lparr>target = Others room (sid sock),
                     event = ''question_like_updated'',
                     payload = Obj
                       [''questionId'' \<mapsto> Val qid,
                        ''likedBy'' \<mapsto> Val (JStr (name (suser sock))),
                        ''likeCount'' \<mapsto> Val likes]\<rparr>]))))"

text \<open>
  The two targeted handlers look the target up in the registry with the value of
  \<^verbatim>\<open>data.targetUserId\<close> as the key. The keys of the registry are strings, so a value
  that is not a string finds nothing.
\<close>

definition lookup_target :: "server \<Rightarrow> jsval \<Rightarrow> conn option" where
  "lookup_target st v =
     (case v of JStr k \<Rightarrow> map_get (connectedUsers st) k | _ \<Rightarrow> None)"

definition on_new_connection :: "server \<Rightarrow> socket \<Rightarrow> jsval \<Rightarrow> outcome" where
  "on_new_connection st sock data =
     (case get_prop data ''targetUserId'' of
       Inl e \<Rightarrow> Inl (e, st)
     | Inr tid \<Rightarrow>
         (case lookup_target st tid of
           None \<Rightarrow> Inr (st, [])
         | Some targetUser \<Rightarrow>
             (case get_prop data ''message'' of
               Inl e \<Rightarrow> Inl (e, st)
             | Inr message \<Rightarrow>
                 Inr (st,
                   [\<lparr>target = Room (socketId targetUser),
                     event = ''connection_request'',
                     payload = Obj
                       [''from'' \<mapsto> Val (JStr (name (suser sock))),
                        ''fromId'' \<mapsto> Val (JStr (userId sock)),
                        ''message'' \<mapsto> Val message]\<rparr>]))))"

definition on_private_message :: "server \<Rightarrow> socket \<Rightarrow> jsval \<Rightarrow> int \<Rightarrow> outcome" where
  "on_private_message st sock data now =
     (case get_prop data ''targetUserId'' of
       Inl e \<Rightarrow> Inl (e, st)
     | Inr tid \<Rightarrow>
         (case lookup_target st tid of
           None \<Rightarrow> Inr (st, [])
         | Some targetUser \<Rightarrow>
             (case get_prop data ''message'' of
               Inl e \<Rightarrow> Inl (e, st)
             | Inr message \<Rightarrow>
                 Inr (st,
                   [\<lparr>target = Room (socketId targetUser),
                     event = ''private_message'',
                     payload = Obj
                       [''from'' \<mapsto> Val (JStr (name (suser sock))),
                        ''fromId'' \<mapsto> Val (JStr (userId sock)),
                        ''message'' \<mapsto> Val message,
                        ''timestamp'' \<mapsto> Date now]\<rparr>]))))"

text \<open>
  \<^verbatim>\<open>join_room\<close> and \<^verbatim>\<open>leave_room\<close> hand the client's value to the transport. Every
  room the module addresses has a string name, so \<open>rooms\<close> records the rooms with string
  names only. \<^verbatim>\<open>socket.join\<close> joins the room its argument names, or every room an
  array names; \<^verbatim>\<open>socket.leave\<close> leaves the one room its argument names; a name that is
  not a string changes no room recorded here. Then the handler prints the value in the
  template literal of its log line, which can raise.
\<close>

fun string_rooms :: "jsval \<Rightarrow> string list" where
  "string_rooms (JStr r) = [r]"
| "string_rooms (JArr xs) = concat (map (\<lambda>x. case x of JStr r \<Rightarrow> [r] | _ \<Rightarrow> []) xs)"
| "string_rooms v = []"

definition on_join_room :: "server \<Rightarrow> socket \<Rightarrow> jsval \<Rightarrow> outcome" where
  "on_join_room st sock roomName =
     (let st' = st\<lparr>rooms := foldl (\<lambda>rs r. join rs (sid sock) r) (rooms st) (string_rooms roomName)\<rparr>
      in case to_string roomName of
           Inl e \<Rightarrow> Inl (e, st')
         | Inr printed \<Rightarrow> Inr (st', []))"

definition on_leave_room :: "server \<Rightarrow> socket \<Rightarrow> jsval \<Rightarrow> outcome" where
  "on_leave_room st sock roomName =
     (let st' = (case roomName of
                   JStr r \<Rightarrow> st\<lparr>rooms := leave (rooms st) (sid sock) r\<rparr>
                 | _ \<Rightarrow> st)
      in case to_string roomName of
           Inl e \<Rightarrow> Inl (e, st')
         | Inr printed \<Rightarrow> Inr (st', []))"

definition on_status_update :: "server \<Rightarrow> socket \<Rightarrow> jsval \<Rightarrow> outcome" where
  "on_status_update st sock new_status =
     (let st' =
        (case map_get (connectedUsers st) (userId sock) of
          None \<Rightarrow> st
        | Some userData \<Rightarrow>
            st\<lparr>connectedUsers :=
                 map_set (connectedUsers st) (userId sock) (userData\<lparr>status := new_status\<rparr>)\<rparr>)
      in Inr (st',
           [\<lparr>target = Others (university_room sock) (sid sock),
             event = ''user_status_changed'',
             payload = Obj
               [''userId'' \<mapsto> Val (JStr (userId sock)),
                ''userName'' \<mapsto> Val (JStr (name (suser sock))),
                ''status'' \<mapsto> Val new_status]\<rparr>]))"

text \<open>
  A closing socket is first removed by the transport (\<open>close\<close>): it leaves every room
  and is no longer connected. Then the \<^verbatim>\<open>disconnect\<close> handler runs.
\<close>

definition close :: "server \<Rightarrow> socket \<Rightarrow> server" where
  "close st sock =
     st\<lparr>sockets := (sockets st)(sid sock := None),
        rooms := leave_all (rooms st) (sid sock)\<rparr>"

definition on_disconnect :: "server \<Rightarrow> socket \<Rightarrow> outcome" where
  "on_disconnect st sock =
     Inr (st\<lparr>connectedUsers := map_delete (connectedUsers st) (userId sock)\<rparr>,
       [\<lparr>target = Others (university_room sock) (sid sock),
         event = ''user_offline'',
         payload = Obj
           [''userId'' \<mapsto> Val (JStr (userId sock)),
            ''userName'' \<mapsto> Val (JStr (name (suser sock)))]\<rparr>])"

section \<open>The event router\<close>

text \<open>
  The events a connection can raise. The handlers exist only for a socket that was
  admitted and is still connected: \<open>dispatch\<close> finds the socket of the closure by its
  identifier, and does nothing for an identifier that is not connected. The
  \<^verbatim>\<open>error\<close> handler only logs.
\<close>

datatype inbound =
    NewQuestion jsval
  | NewAnswer jsval
  | LiveChat jsval
  | TypingStart jsval
  | TypingStop jsval
  | QuestionLiked jsval
  | NewConnection jsval
  | PrivateMessage jsval
  | JoinRoom jsval
  | LeaveRoom jsval
  | StatusUpdate jsval
  | Disconnect
  | SocketError jsval

fun handle :: "server \<Rightarrow> socket \<Rightarrow> inbound \<Rightarrow> int \<Rightarrow> outcome" where
  "handle st sock (NewQuestion data) now = on_new_question st sock data now"
| "handle st sock (NewAnswer data) now = on_new_answer st sock data now"
| "handle st sock (LiveChat data) now = on_live_chat st sock data now"
| "handle st sock (TypingStart data) now = on_typing_start st sock data"
| "handle st sock (TypingStop data) now = on_typing_stop st sock data"
| "handle st sock (QuestionLiked data) now = on_question_liked st sock data"
| "handle st sock (NewConnection data) now = on_new_connection st sock data"
| "handle st sock (PrivateMessage data) now = on_private_message st sock data now"
| "handle st sock (JoinRoom roomName) now = on_join_room st sock roomName"
| "handle st sock (LeaveRoom roomName) now = on_leave_room st sock roomName"
| "handle st sock (StatusUpdate s) now = on_status_update st sock s"
| "handle st sock Disconnect now = on_disconnect (close st sock) sock"
| "handle st sock (SocketError e) now = Inr (st, [])"

definition dispatch :: "server \<Rightarrow> string \<Rightarrow> inbound \<Rightarrow> int \<Rightarrow> outcome" where
  "dispatch st sock_id ev now =
     (case sockets st sock_id of
       None \<Rightarrow> Inr (st, [])
     | Some sock \<Rightarrow> handle st sock ev now)"

section \<open>The accessors returned to the rest of the server\<close>

definition emitToUser :: "server \<Rightarrow> string \<Rightarrow> string \<Rightarrow> jsval \<Rightarrow> emission list" where
  "emitToUser st user_id ev data =
     (case map_get (connectedUsers st) user_id of
       None \<Rightarrow> []
     | Some userData \<Rightarrow> [\<lparr>target = Room (socketId userData), event = ev, payload = Raw data\<rparr>])"

text \<open>\<^verbatim>\<open>emitToUniversity\<close> builds the room name from its argument with a template
  literal, so it raises where the conversion does.\<close>

definition emitToUniversity :: "jsval \<Rightarrow> string \<Rightarrow> jsval \<Rightarrow> js_error + emission list" where
  "emitToUniversity uni ev data =
     (case to_string uni of
       Inl e \<Rightarrow> Inl e
     | Inr u \<Rightarrow> Inr [\<lparr>target = Room (''university:'' @ u), event = ev, payload = Raw data\<rparr>])"

definition emitToAll :: "string \<Rightarrow> jsval \<Rightarrow> emission list" where
  "emitToAll ev data = [\<lparr>target = Everyone, event = ev, payload = Raw data\<rparr>]"

definition getConnectedUsers :: "server \<Rightarrow> conn list" where
  "getConnectedUsers st = map_values (connectedUsers st)"

definition getConnectedUsersCount :: "server \<Rightarrow> nat" where
  "getConnectedUsersCount st = map_size (connectedUsers st)"

section \<open>Runs of the server\<close>

text \<open>
  A run is a sequence of handshakes and inbound events, from the state \<open>init\<close> the
  module starts in. The transport gives every connection an identifier of its own, so a
  handshake under an identifier that is connected does not occur; after an exception
  that escapes a handler the run goes on from the state the handler left.
\<close>

datatype step = Connect string jsval int | Inbound string inbound int

fun do_step :: "verifier \<Rightarrow> user_store \<Rightarrow> server \<Rightarrow> step \<Rightarrow> server" where
  "do_step jwt_verify findById st (Connect sock_id token now) =
     (if sockets st sock_id = None
      then fst (handshake jwt_verify findById st sock_id token now)
      else st)"
| "do_step jwt_verify findById st (Inbound sock_id ev now) =
     (case dispatch st sock_id ev now of Inl (e, st') \<Rightarrow> st' | Inr (st', ems) \<Rightarrow> st')"

definition run :: "verifier \<Rightarrow> user_store \<Rightarrow> step list \<Rightarrow> server" where
  "run jwt_verify findById steps = foldl (do_step jwt_verify findById) init steps"

text \<open>The registry and the emissions of an outcome, for stating what a handler did.\<close>

definition registry_of :: "outcome \<Rightarrow> (string \<times> conn) list option" where
  "registry_of r = (case r of Inl e \<Rightarrow> None | Inr (st, ems) \<Rightarrow> Some (connectedUsers st))"

definition emissions_of :: "outcome \<Rightarrow> emission list option" where
  "emissions_of r = (case r of Inl e \<Rightarrow> None | Inr (st, ems) \<Rightarrow> Some ems)"

text \<open>The registry holds every key once; every run keeps it so.\<close>

definition registry_ok :: "server \<Rightarrow> bool" where
  "registry_ok st = distinct (map fst (connectedUsers st))"

subsection \<open>A small deployment\<close>

text \<open>Two users of one university and one of another; a verifier that accepts four
  tokens, the last for an identity the store does not hold.\<close>

definition alice :: user where
  "alice = \<lparr>uid = ''u1'', name = ''Alice'', initials = ''A'', university = ''X''\<rparr>"

definition bob :: user where
  "bob = \<lparr>uid = ''u2'', name = ''Bob'', initials = ''B'', university = ''X''\<rparr>"

definition carol :: user where
  "carol = \<lparr>uid = ''u3'', name = ''Carol'', initials = ''C'', university = ''Y''\<rparr>"

definition demo_verify :: verifier where
  "demo_verify token =
     (case token of
       JStr t \<Rightarrow>
         (if t = ''tok-alice'' then Some (JObj [''userId'' \<mapsto> JStr ''u1''])
          else if t = ''tok-bob'' then Some (JObj [''userId'' \<mapsto> JStr ''u2''])
          else if t = ''tok-carol'' then Some (JObj [''userId'' \<mapsto> JStr ''u3''])
          else if t = ''tok-ghost'' then Some (JObj [''userId'' \<mapsto> JStr ''u9''])
          else None)
     | _ \<Rightarrow> None)"

definition demo_store :: user_store where
  "demo_store v =
     (case v of
       JStr k \<Rightarrow>
         (if k = ''u1'' then Some (Some alice)
          else if k = ''u2'' then Some (Some bob)
          else if k = ''u3'' then Some (Some carol)
          else Some None)
     | _ \<Rightarrow> Some None)"

text \<open>
  Two more properties that every run keeps: a connected socket is stored under its own
  identifier, and every entry of the registry names a connected socket of the user it is
  stored for.
\<close>

definition sockets_ok :: "server \<Rightarrow> bool" where
  "sockets_ok st = (\<forall>s sock. sockets st s = Some sock \<longrightarrow> sid sock = s)"

definition registry_live :: "server \<Rightarrow> bool" where
  "registry_live st =
     list_all (\<lambda>(k, c). case sockets st (socketId c) of
                          None \<Rightarrow> False
                        | Some sock \<Rightarrow> userId sock = k)
       (connectedUsers st)"

definition invariant :: "server \<Rightarrow> bool" where
  "invariant st = (registry_ok st \<and> sockets_ok st \<and> registry_live st)"

text \<open>The two events whose handlers address one connection through the registry
  (\<^verbatim>\<open>io.to(targetUser.socketId)\<close>); every other handler that emits does so with
  \<^verbatim>\<open>socket.to(room)\<close>.\<close>

fun targeted :: "inbound \<Rightarrow> bool" where
  "targeted (NewConnection data) = True"
| "targeted (PrivateMessage data) = True"
| "targeted ev = False"

text \<open>
  The room fan-out that the specification gives each broadcasting event (its table of
  the event router, and the presence notice of the disconnect hook), with the names the
  module gives the rooms and the outbound events: the rooms in order, each with the
  outbound event sent to it. It is an error where the payload cannot be read or the
  identifier that names the room cannot be printed. The events that are not
  room broadcasts have no fan-out.
\<close>

fun fanout :: "socket \<Rightarrow> inbound \<Rightarrow> js_error + (string \<times> string) list" where
  "fanout sock (NewQuestion data) =
     (if nullish data then Inl TypeError
      else Inr [(university_room sock, ''new_question''), (''global'', ''question_trending'')])"
| "fanout sock (NewAnswer data) =
     map_sum id (\<lambda>r. [(r, ''new_answer'')]) (room_name ''question:'' data ''questionId'')"
| "fanout sock (LiveChat data) =
     map_sum id (\<lambda>r. [(r, ''live_chat'')]) (room_name ''ama:'' data ''sessionId'')"
| "fanout sock (TypingStart data) =
     map_sum id (\<lambda>r. [(r, ''user_typing'')]) (room_name ''question:'' data ''questionId'')"
| "fanout sock (TypingStop data) =
     map_sum id (\<lambda>r. [(r, ''user_stopped_typing'')])
       (room_name ''question:'' data ''questionId'')"
| "fanout sock (QuestionLiked data) =
     map_sum id (\<lambda>r. [(r, ''question_like_updated'')])
       (room_name ''question:'' data ''questionId'')"
| "fanout sock (StatusUpdate s) = Inr [(university_room sock, ''user_status_changed'')]"
| "fanout sock Disconnect = Inr [(university_room sock, ''user_offline'')]"
| "fanout sock ev = Inr []"

fun broadcasts :: "inbound \<Rightarrow> bool" where
  "broadcasts (NewConnection data) = False"
| "broadcasts (PrivateMessage data) = False"
| "broadcasts (JoinRoom r) = False"
| "broadcasts (LeaveRoom r) = False"
| "broadcasts (SocketError e) = False"
| "broadcasts ev = True"

text \<open>The registry with the \<open>status\<close> of every entry blanked: two registries that agree
  on it differ in \<open>status\<close> fields only.\<close>

definition erase_status :: "(string \<times> conn) list \<Rightarrow> (string \<times> conn) list" where
  "erase_status m = map (\<lambda>(k, c). (k, c\<lparr>status := JUndefined\<rparr>)) m"

text \<open>The three fields that \<^verbatim>\<open>new_question\<close>, \<^verbatim>\<open>new_answer\<close> and \<^verbatim>\<open>live_chat\<close>
  write after the client's own, and their values in an emission.\<close>

definition stamps :: "string set" where
  "stamps = {''author'', ''authorInitial'', ''timestamp''}"

definition stamp_of :: "emission \<Rightarrow> outval option \<times> outval option \<times> outval option" where
  "stamp_of e =
     (case payload e of
       Obj p \<Rightarrow> (p ''author'', p ''authorInitial'', p ''timestamp'')
     | Raw v \<Rightarrow> (None, None, None))"

text \<open>Runs of the deployment: Alice and Bob connected, each on one device; Alice on two
  devices, the first of which has closed; Alice and Bob connected, and Bob has left the
  room named by his own connection; Alice, Bob and Carol connected, and Carol has joined
  the room named by Bob's connection.\<close>

definition pair :: server where
  "pair = run demo_verify demo_store
     [Connect ''s1'' (JStr ''tok-alice'') 1, Connect ''s2'' (JStr ''tok-bob'') 2]"

definition left_own_room :: server where
  "left_own_room = run demo_verify demo_store
     [Connect ''s1'' (JStr ''tok-alice'') 1, Connect ''s2'' (JStr ''tok-bob'') 2,
      Inbound ''s2'' (LeaveRoom (JStr ''s2'')) 3]"

definition eavesdropped :: server where
  "eavesdropped = run demo_verify demo_store
     [Connect ''s1'' (JStr ''tok-alice'') 1, Connect ''s2'' (JStr ''tok-bob'') 2,
      Connect ''s3'' (JStr ''tok-carol'') 3, Inbound ''s3'' (JoinRoom (JStr ''s2'')) 4]"

definition orphaned :: server where
  "orphaned = run demo_verify demo_store
     [Connect ''s1'' (JStr ''tok-alice'') 1, Connect ''s2'' (JStr ''tok-alice'') 2,
      Inbound ''s1'' Disconnect 3]"

section \<open>Properties of the building blocks\<close>

subsection \<open>Property reads\<close>

lemma get_prop_total:
  "data \<noteq> JUndefined \<Longrightarrow> data \<noteq> JNull \<Longrightarrow> \<exists>v. get_prop data k = Inr v"
  by (cases data) simp_all

lemma get_prop_Inr_iff:
  "(\<exists>v. get_prop data k = Inr v) \<longleftrightarrow> (data \<noteq> JUndefined \<and> data \<noteq> JNull)"
  by (cases data) simp_all

lemma get_prop_Inl_iff: "(\<exists>e. get_prop data k = Inl e) \<longleftrightarrow> nullish data"
  by (cases data) simp_all

lemma get_prop_nullish: "nullish data \<Longrightarrow> get_prop data k = Inl TypeError"
  by (cases data) simp_all

lemma get_prop_not_nullish: "\<not> nullish data \<Longrightarrow> \<exists>v. get_prop data k = Inr v"
  by (cases data) simp_all

lemma room_name_Inr:
  "room_name prefix data k = Inr r \<Longrightarrow> \<not> nullish data"
  by (cases data) (simp_all add: room_name_def)

subsection \<open>The registry as a Map\<close>

lemma map_get_set: "map_get (map_set m k v) k' = (if k' = k then Some v else map_get m k')"
  by (simp add: map_get_def map_set_def update_conv')

lemma map_get_delete: "map_get (map_delete m k) k' = (if k' = k then None else map_get m k')"
  by (simp add: map_get_def map_delete_def delete_conv')

lemma distinct_map_set: "distinct (map fst m) \<Longrightarrow> distinct (map fst (map_set m k v))"
  by (simp add: map_set_def distinct_update)

lemma distinct_map_delete: "distinct (map fst m) \<Longrightarrow> distinct (map fst (map_delete m k))"
  by (simp add: map_delete_def distinct_delete)

lemma map_size_set:
  "map_size (map_set m k v) = (if map_get m k = None then Suc (map_size m) else map_size m)"
  unfolding map_size_def map_set_def map_get_def
  by (induction m) auto

lemma map_size_delete:
  "distinct (map fst m) \<Longrightarrow>
   map_size (map_delete m k) = (if map_get m k = None then map_size m else map_size m - 1)"
proof (induction m)
  case Nil
  then show ?case by (simp add: map_size_def map_delete_def map_get_def)
next
  case (Cons p m)
  obtain a b where p: "p = (a, b)" by (cases p)
  show ?case
  proof (cases "a = k")
    case True
    with Cons.prems p have "k \<notin> fst ` set m" by auto
    then have "AList.delete k m = m" by simp
    with True p show ?thesis by (simp add: map_size_def map_delete_def map_get_def)
  next
    case False
    with Cons p show ?thesis
      by (auto simp: map_size_def map_delete_def map_get_def map_of_eq_None_iff
          intro: Suc_pred)
  qed
qed

lemma map_size_delete_present:
  assumes d: "distinct (map fst m)" and p: "map_get m k \<noteq> None"
  shows "Suc (map_size (map_delete m k)) = map_size m"
proof -
  from p have "m \<noteq> []" by (auto simp: map_get_def)
  then have "0 < map_size m" by (simp add: map_size_def)
  moreover have "map_size (map_delete m k) = map_size m - 1"
    using map_size_delete [OF d, of k] p by auto
  ultimately show ?thesis by simp
qed

lemma map_delete_absent: "map_get m k = None \<Longrightarrow> map_delete m k = m"
  by (simp add: map_get_def map_delete_def map_of_eq_None_iff)

lemma entries_once:
  "distinct (map fst m) \<Longrightarrow> map_get m k = Some v \<Longrightarrow> length (filter (\<lambda>e. fst e = k) m) = 1"
proof (induction m)
  case Nil
  then show ?case by (simp add: map_get_def)
next
  case (Cons p m)
  obtain a b where p: "p = (a, b)" by (cases p)
  show ?case
  proof (cases "a = k")
    case True
    with Cons.prems p have "k \<notin> fst ` set m" by auto
    then have "filter (\<lambda>e. fst e = k) m = []" by (auto simp: filter_empty_conv)
    with True p show ?thesis by simp
  next
    case False
    with Cons p show ?thesis by (simp add: map_get_def)
  qed
qed

lemma erase_status_set:
  "map_get m k = Some c \<Longrightarrow> erase_status (map_set m k (c\<lparr>status := s\<rparr>)) = erase_status m"
  unfolding map_get_def map_set_def erase_status_def
  by (induction m) (auto split: if_splits)

subsection \<open>The middleware\<close>

lemma authenticate_missing:
  "\<not> truthy token \<Longrightarrow> authenticate v f s token = Inl (Error ''Authentication error'')"
  by (simp add: authenticate_def)

lemma authenticate_invalid:
  "v token = None \<Longrightarrow> authenticate v f s token = Inl (Error ''Authentication error'')"
  by (simp add: authenticate_def)

lemma authenticate_not_found:
  "truthy token \<Longrightarrow> v token = Some d \<Longrightarrow> get_prop d ''userId'' = Inr c \<Longrightarrow> f c = Some None
   \<Longrightarrow> authenticate v f s token = Inl (Error ''User not found'')"
  by (simp add: authenticate_def)

lemma authenticate_Inr:
  "authenticate v f s token = Inr sock \<Longrightarrow> sid sock = s \<and> userId sock = uid (suser sock)"
  by (auto simp: authenticate_def split: if_splits option.splits sum.splits)

lemma authenticate_Inr_iff:
  "(\<exists>sock. authenticate v f s token = Inr sock) \<longleftrightarrow>
   truthy token \<and> (\<exists>d c u. v token = Some d \<and> get_prop d ''userId'' = Inr c \<and> f c = Some (Some u))"
  by (auto simp: authenticate_def split: if_splits option.splits sum.splits)

subsection \<open>What every run keeps\<close>

lemma registry_live_iff:
  assumes "registry_ok st"
  shows "registry_live st \<longleftrightarrow>
     (\<forall>k c. map_get (connectedUsers st) k = Some c \<longrightarrow>
        (\<exists>sock. sockets st (socketId c) = Some sock \<and> userId sock = k))"
proof -
  from assms have d: "distinct (map fst (connectedUsers st))" by (simp add: registry_ok_def)
  have m: "\<And>k c. map_get (connectedUsers st) k = Some c \<longleftrightarrow> (k, c) \<in> set (connectedUsers st)"
    using d by (simp add: map_get_def)
  show ?thesis
    unfolding registry_live_def list_all_iff m
    by (fastforce split: option.splits)
qed

lemma invariant_init: "invariant init"
  by (simp add: invariant_def registry_ok_def sockets_ok_def registry_live_def init_def)

lemma invariant_connect:
  assumes "invariant st" and "sockets st (sid sock) = None"
  shows "invariant (on_connection (admit st sock) sock now)"
proof -
  let ?st = "on_connection (admit st sock) sock now"
  from assms(1) have ok: "registry_ok st" and so: "sockets_ok st" and rl: "registry_live st"
    by (simp_all add: invariant_def)
  have ok': "registry_ok ?st"
    using ok by (simp add: registry_ok_def on_connection_def admit_def distinct_map_set)
  have so': "sockets_ok ?st"
    using so by (simp add: sockets_ok_def on_connection_def admit_def)
  have "\<forall>k c. map_get (connectedUsers ?st) k = Some c \<longrightarrow>
        (\<exists>t. sockets ?st (socketId c) = Some t \<and> userId t = k)"
  proof (intro allI impI)
    fix k c
    assume g: "map_get (connectedUsers ?st) k = Some c"
    show "\<exists>t. sockets ?st (socketId c) = Some t \<and> userId t = k"
    proof (cases "k = userId sock")
      case True
      with g show ?thesis by (auto simp: on_connection_def admit_def map_get_set)
    next
      case False
      with g have "map_get (connectedUsers st) k = Some c"
        by (simp add: on_connection_def admit_def map_get_set)
      with rl ok obtain t where t: "sockets st (socketId c) = Some t" "userId t = k"
        by (auto simp: registry_live_iff)
      with assms(2) have "socketId c \<noteq> sid sock" by auto
      with t show ?thesis by (simp add: on_connection_def admit_def)
    qed
  qed
  with ok' have "registry_live ?st" by (simp add: registry_live_iff)
  with ok' so' show ?thesis by (simp add: invariant_def)
qed

lemma invariant_rooms: "invariant (st\<lparr>rooms := r\<rparr>) = invariant st"
  by (simp add: invariant_def registry_ok_def sockets_ok_def registry_live_def)

lemma invariant_status:
  assumes "invariant st" and "map_get (connectedUsers st) k = Some c"
  shows "invariant (st\<lparr>connectedUsers := map_set (connectedUsers st) k (c\<lparr>status := s\<rparr>)\<rparr>)"
proof -
  let ?st = "st\<lparr>connectedUsers := map_set (connectedUsers st) k (c\<lparr>status := s\<rparr>)\<rparr>"
  from assms(1) have ok: "registry_ok st" and so: "sockets_ok st" and rl: "registry_live st"
    by (simp_all add: invariant_def)
  have ok': "registry_ok ?st"
    using ok by (simp add: registry_ok_def distinct_map_set)
  have so': "sockets_ok ?st"
    using so by (simp add: sockets_ok_def)
  have "\<forall>k' c'. map_get (connectedUsers ?st) k' = Some c' \<longrightarrow>
        (\<exists>t. sockets ?st (socketId c') = Some t \<and> userId t = k')"
    using rl ok assms(2) by (auto simp: registry_live_iff map_get_set split: if_splits)
  with ok' have "registry_live ?st" by (simp add: registry_live_iff)
  with ok' so' show ?thesis by (simp add: invariant_def)
qed

lemma invariant_disconnect:
  assumes "invariant st" and "sockets st s = Some sock"
    and "on_disconnect (close st sock) sock = Inr (st', ems)"
  shows "invariant st'"
proof -
  from assms(1) have ok: "registry_ok st" and so: "sockets_ok st" and rl: "registry_live st"
    by (simp_all add: invariant_def)
  from so assms(2) have s: "sid sock = s" by (simp add: sockets_ok_def)
  from assms(3) have st': "st' = (close st sock)\<lparr>connectedUsers :=
      map_delete (connectedUsers (close st sock)) (userId sock)\<rparr>"
    by (simp add: on_disconnect_def)
  have ok': "registry_ok st'"
    using ok by (simp add: st' registry_ok_def close_def distinct_map_delete)
  have so': "sockets_ok st'"
    using so by (simp add: st' sockets_ok_def close_def)
  have "\<forall>k c. map_get (connectedUsers st') k = Some c \<longrightarrow>
        (\<exists>t. sockets st' (socketId c) = Some t \<and> userId t = k)"
  proof (intro allI impI)
    fix k c
    assume g: "map_get (connectedUsers st') k = Some c"
    then have k: "k \<noteq> userId sock" and g0: "map_get (connectedUsers st) k = Some c"
      by (auto simp: st' close_def map_get_delete split: if_splits)
    with rl ok obtain t where t: "sockets st (socketId c) = Some t" "userId t = k"
      by (auto simp: registry_live_iff)
    with k assms(2) s have "socketId c \<noteq> sid sock" by auto
    with t show "\<exists>t. sockets st' (socketId c) = Some t \<and> userId t = k"
      by (simp add: st' close_def)
  qed
  with ok' have "registry_live st'" by (simp add: registry_live_iff)
  with ok' so' show ?thesis by (simp add: invariant_def)
qed

lemma invariant_join_rooms:
  "invariant (st\<lparr>rooms := foldl (\<lambda>rs r. join rs s r) (rooms st) xs\<rparr>) = invariant st"
  by (rule invariant_rooms)

lemmas handler_defs = on_new_question_def on_new_answer_def on_live_chat_def
  on_typing_start_def on_typing_stop_def on_question_liked_def on_new_connection_def
  on_private_message_def on_join_room_def on_leave_room_def

lemma invariant_handle:
  assumes "invariant st" and "sockets st s = Some sock"
    and "handle st sock ev now = Inr (st', ems)"
  shows "invariant st'"
proof (cases ev)
  case Disconnect
  with assms show ?thesis by (auto intro: invariant_disconnect)
next
  case (StatusUpdate v)
  with assms show ?thesis
    by (auto simp: on_status_update_def Let_def invariant_status split: option.splits)
qed (use assms in \<open>auto simp: handler_defs Let_def invariant_rooms
      split: sum.splits option.splits jsval.splits\<close>)

lemma invariant_handle_raise:
  assumes "invariant st" and "handle st sock ev now = Inl (e, st')"
  shows "invariant st'"
proof (cases ev)
  case Disconnect
  with assms show ?thesis by (simp add: on_disconnect_def)
next
  case (StatusUpdate v)
  with assms show ?thesis by (simp add: on_status_update_def Let_def)
qed (use assms in \<open>auto simp: handler_defs Let_def invariant_rooms
      split: sum.splits option.splits jsval.splits\<close>)

lemma invariant_step: "invariant st \<Longrightarrow> invariant (do_step v f st x)"
proof (cases x)
  case (Connect sock_id token now)
  assume i: "invariant st"
  show ?thesis
  proof (cases "authenticate v f sock_id token")
    case (Inl e)
    with i Connect show ?thesis by (simp add: handshake_def)
  next
    case (Inr sock)
    then have "sid sock = sock_id" by (simp add: authenticate_Inr)
    with i Connect Inr show ?thesis by (auto simp: handshake_def intro: invariant_connect)
  qed
next
  case (Inbound sock_id ev now)
  assume i: "invariant st"
  with Inbound show ?thesis
    by (auto simp: dispatch_def split: option.splits sum.splits
        dest: invariant_handle invariant_handle_raise)
qed

lemma invariant_foldl: "invariant st \<Longrightarrow> invariant (foldl (do_step v f) st xs)"
  by (induction xs arbitrary: st) (simp_all add: invariant_step)

lemma invariant_run: "invariant (run v f xs)"
  by (simp add: run_def invariant_foldl invariant_init)

subsection \<open>The runs of the deployment\<close>

lemma demo_alice:
  "authenticate demo_verify demo_store s (JStr ''tok-alice'')
     = Inr \<lparr>sid = s, userId = ''u1'', suser = alice\<rparr>"
  by (simp add: authenticate_def demo_verify_def demo_store_def alice_def)

lemma demo_bob:
  "authenticate demo_verify demo_store s (JStr ''tok-bob'')
     = Inr \<lparr>sid = s, userId = ''u2'', suser = bob\<rparr>"
  by (simp add: authenticate_def demo_verify_def demo_store_def bob_def)

lemma demo_carol:
  "authenticate demo_verify demo_store s (JStr ''tok-carol'')
     = Inr \<lparr>sid = s, userId = ''u3'', suser = carol\<rparr>"
  by (simp add: authenticate_def demo_verify_def demo_store_def carol_def)

lemma demo_missing:
  "authenticate demo_verify demo_store s JUndefined = Inl (Error ''Authentication error'')"
  by (simp add: authenticate_def)

lemma demo_forged:
  "authenticate demo_verify demo_store s (JStr ''forged'') = Inl (Error ''Authentication error'')"
  by (simp add: authenticate_def demo_verify_def)

lemma demo_ghost:
  "authenticate demo_verify demo_store s (JStr ''tok-ghost'') = Inl (Error ''User not found'')"
  by (simp add: authenticate_def demo_verify_def demo_store_def)

lemmas run_simps = run_def init_def handshake_def demo_alice demo_bob demo_carol admit_def
  on_connection_def dispatch_def on_disconnect_def on_join_room_def on_leave_room_def
  close_def map_set_def map_delete_def join_def leave_def leave_all_def
  university_room_def alice_def bob_def carol_def

lemma pair_registry:
  "connectedUsers pair =
     [(''u1'', \<lparr>socketId = ''s1'', cuser = alice, connectedAt = 1, status = JUndefined\<rparr>),
      (''u2'', \<lparr>socketId = ''s2'', cuser = bob, connectedAt = 2, status = JUndefined\<rparr>)]"
  by (simp add: pair_def run_simps)

lemma pair_sockets:
  "sockets pair ''s1'' = Some \<lparr>sid = ''s1'', userId = ''u1'', suser = alice\<rparr>"
  "sockets pair ''s2'' = Some \<lparr>sid = ''s2'', userId = ''u2'', suser = bob\<rparr>"
  "sockets pair ''s3'' = None"
  by (simp_all add: pair_def run_simps)

lemma pair_dom: "dom (sockets pair) = {''s1'', ''s2''}"
  by (auto simp add: pair_def run_simps)

lemma pair_rooms:
  "rooms pair ''university:X'' = {''s1'', ''s2''}"
  "rooms pair ''global'' = {''s1'', ''s2''}"
  "rooms pair ''s1'' = {''s1''}"
  "rooms pair ''s2'' = {''s2''}"
  by (auto simp add: pair_def run_simps)

lemma pair_ok: "registry_ok pair"
  by (simp add: registry_ok_def pair_registry)

lemma pair_live: "registry_live pair"
  by (simp add: registry_live_def pair_registry pair_sockets)





lemma left_own_room_invariant: "invariant left_own_room"
  by (simp add: left_own_room_def invariant_run)




lemma eavesdropped_invariant: "invariant eavesdropped"
  by (simp add: eavesdropped_def invariant_run)

lemma orphaned_registry: "connectedUsers orphaned = []"
  by (simp add: orphaned_def run_simps)

lemma orphaned_sockets:
  "sockets orphaned ''s2'' = Some \<lparr>sid = ''s2'', userId = ''u1'', suser = alice\<rparr>"
  "sockets orphaned ''s1'' = None"
  by (simp_all add: orphaned_def run_simps)

subsection \<open>The handlers' addresses and stamps\<close>

lemma handle_targets:
  assumes "handle st sock ev now = Inr (st', ems)" and "\<not> targeted ev" and "e \<in> set ems"
  shows "\<exists>r. target e = Others r (sid sock)"
  using assms
  by (cases ev)
     (auto simp: handler_defs on_status_update_def on_disconnect_def Let_def
        split: sum.splits option.splits jsval.splits)

lemma handle_fanout:
  assumes "broadcasts ev" and "fanout sock ev = Inr rs"
  shows "\<exists>st' ems. handle st sock ev now = Inr (st', ems)
            \<and> map (\<lambda>e. (target e, event e)) ems
                = map (\<lambda>(r, n). (Others r (sid sock), n)) rs
            \<and> rooms st' = (if ev = Disconnect then leave_all (rooms st) (sid sock)
                            else rooms st)"
proof (cases ev)
  case (NewQuestion data)
  with assms(2) have n: "\<not> nullish data" by (auto split: if_splits)
  obtain title qid where "get_prop data ''title'' = Inr title" "get_prop data ''id'' = Inr qid"
    using get_prop_not_nullish [OF n] by blast
  with NewQuestion assms(2) n show ?thesis by (auto simp: on_new_question_def)
next
  case (NewAnswer data)
  with assms(2) show ?thesis
    by (auto simp: on_new_answer_def split: sum.splits)
next
  case (LiveChat data)
  with assms(2) obtain r where r: "room_name ''ama:'' data ''sessionId'' = Inr r"
    by (cases "room_name ''ama:'' data ''sessionId''") auto
  obtain m where "get_prop data ''message'' = Inr m"
    using get_prop_not_nullish [OF room_name_Inr [OF r]] by blast
  with LiveChat assms(2) r show ?thesis by (auto simp: on_live_chat_def)
next
  case (TypingStart data)
  with assms(2) show ?thesis
    by (auto simp: on_typing_start_def split: sum.splits)
next
  case (TypingStop data)
  with assms(2) show ?thesis
    by (auto simp: on_typing_stop_def split: sum.splits)
next
  case (QuestionLiked data)
  with assms(2) obtain r where r: "room_name ''question:'' data ''questionId'' = Inr r"
    by (cases "room_name ''question:'' data ''questionId''") auto
  obtain q c where "get_prop data ''questionId'' = Inr q" "get_prop data ''likeCount'' = Inr c"
    using get_prop_not_nullish [OF room_name_Inr [OF r]] by blast
  with QuestionLiked assms(2) r show ?thesis by (auto simp: on_question_liked_def)
next
  case (StatusUpdate v)
  with assms(2) show ?thesis
    by (auto simp: on_status_update_def Let_def split: option.splits)
next
  case Disconnect
  with assms(2) show ?thesis by (auto simp: on_disconnect_def close_def)
qed (use assms(1) in simp_all)

lemma raise_keeps_registry:
  assumes "handle st sock ev now = Inl (e, st')"
  shows "connectedUsers st' = connectedUsers st" and "sockets st' = sockets st"
  using assms
  by (cases ev;
      auto simp: handler_defs on_status_update_def on_disconnect_def Let_def
        split: sum.splits option.splits jsval.splits)+

lemma spread_cong:
  assumes "\<forall>k. k \<notin> stamps \<longrightarrow> m1 k = m2 k"
  shows "(spread (JObj m1))(''author'' \<mapsto> a, ''authorInitial'' \<mapsto> b, ''timestamp'' \<mapsto> c)
       = (spread (JObj m2))(''author'' \<mapsto> a, ''authorInitial'' \<mapsto> b, ''timestamp'' \<mapsto> c)"
  using assms by (auto simp: fun_eq_iff spread_def stamps_def)

lemma spread_cong_university:
  assumes "\<forall>k. k \<notin> stamps \<longrightarrow> m1 k = m2 k"
  shows "(spread (JObj m1))(''author'' \<mapsto> a, ''authorInitial'' \<mapsto> b,
            ''university'' \<mapsto> u, ''timestamp'' \<mapsto> c)
       = (spread (JObj m2))(''author'' \<mapsto> a, ''authorInitial'' \<mapsto> b,
            ''university'' \<mapsto> u, ''timestamp'' \<mapsto> c)"
  using assms by (auto simp: fun_eq_iff spread_def stamps_def)

lemma agree_off_stamps:
  assumes "\<forall>k. k \<notin> stamps \<longrightarrow> m1 k = m2 k"
  shows "m1 ''title'' = m2 ''title''" "m1 ''id'' = m2 ''id''"
    "m1 ''questionId'' = m2 ''questionId''"
    "m1 ''message'' = m2 ''message''" "m1 ''sessionId'' = m2 ''sessionId''"
  using assms by (simp_all add: stamps_def)

section \<open>The claims\<close>

text \<open>
  C1. A handshake whose credential is missing, fails verification, or names an identity
  that is not found, is not authenticated: the middleware answers with an error. Every
  handshake the middleware answers with an error is rejected before admission: the state
  after it is the state before it (no registry entry is written, no room is joined, no
  socket is connected), and no event under the identifier of the rejected connection
  reaches a handler: it changes nothing and emits nothing.
\<close>

theorem rejected_handshake_admits_nothing:
  "(\<not> truthy token \<or> jwt_verify token = None
      \<or> (\<exists>decoded claimed. jwt_verify token = Some decoded
            \<and> get_prop decoded ''userId'' = Inr claimed \<and> findById claimed = Some None)
     \<longrightarrow> (\<exists>e. authenticate jwt_verify findById sock_id token = Inl e))
   \<and> (\<forall>e. authenticate jwt_verify findById sock_id token = Inl e \<longrightarrow>
         handshake jwt_verify findById st sock_id token now = (st, Some e)
         \<and> (sockets st sock_id = None \<longrightarrow>
              (\<forall>ev t. dispatch (fst (handshake jwt_verify findById st sock_id token now))
                  sock_id ev t = Inr (st, []))))"
proof (intro conjI impI allI)
  assume "\<not> truthy token \<or> jwt_verify token = None
      \<or> (\<exists>decoded claimed. jwt_verify token = Some decoded
            \<and> get_prop decoded ''userId'' = Inr claimed \<and> findById claimed = Some None)"
  then show "\<exists>e. authenticate jwt_verify findById sock_id token = Inl e"
    by (cases "truthy token")
       (auto simp: authenticate_missing authenticate_invalid authenticate_not_found)
next
  fix e
  assume "authenticate jwt_verify findById sock_id token = Inl e"
  then show "handshake jwt_verify findById st sock_id token now = (st, Some e)"
    by (simp add: handshake_def)
next
  fix e ev t
  assume "authenticate jwt_verify findById sock_id token = Inl e"
    and "sockets st sock_id = None"
  then show "dispatch (fst (handshake jwt_verify findById st sock_id token now)) sock_id ev t
      = Inr (st, [])"
    by (simp add: handshake_def dispatch_def)
qed

theorem rejected_handshake_admits_nothing_witness:
  "handshake demo_verify demo_store pair ''s3'' JUndefined 3
      = (pair, Some (Error ''Authentication error''))
   \<and> handshake demo_verify demo_store pair ''s3'' (JStr ''forged'') 3
      = (pair, Some (Error ''Authentication error''))
   \<and> handshake demo_verify demo_store pair ''s3'' (JStr ''tok-ghost'') 3
      = (pair, Some (Error ''User not found''))
   \<and> sockets pair ''s3'' = None
   \<and> dispatch (fst (handshake demo_verify demo_store pair ''s3'' JUndefined 3)) ''s3''
        (JoinRoom (JStr ''global'')) 4 = Inr (pair, [])"
  using rejected_handshake_admits_nothing [where sock_id = "''s3''" and st = pair and now = 3
      and jwt_verify = demo_verify and findById = demo_store and token = JUndefined]
    rejected_handshake_admits_nothing [where sock_id = "''s3''" and st = pair and now = 3
      and jwt_verify = demo_verify and findById = demo_store and token = "JStr ''forged''"]
    rejected_handshake_admits_nothing [where sock_id = "''s3''" and st = pair and now = 3
      and jwt_verify = demo_verify and findById = demo_store and token = "JStr ''tok-ghost''"]
    demo_missing [of "''s3''"] demo_forged [of "''s3''"] demo_ghost [of "''s3''"]
  by (clarsimp simp: pair_sockets)

text \<open>
  C2. After a successful handshake the registry holds exactly one entry for the user's
  id, and that entry names the connection just admitted; an entry the user had before is
  overwritten (the number of entries grows by one only when the user had none), and the
  entries of the other users are as they were.
\<close>

theorem handshake_registers_newest:
  assumes "authenticate jwt_verify findById sock_id token = Inr sock"
    and "registry_ok st"
  shows "snd (handshake jwt_verify findById st sock_id token now) = None
    \<and> map_get (connectedUsers (fst (handshake jwt_verify findById st sock_id token now)))
          (userId sock)
        = Some \<lparr>socketId = sock_id, cuser = suser sock, connectedAt = now, status = JUndefined\<rparr>
    \<and> length (filter (\<lambda>e. fst e = userId sock)
          (connectedUsers (fst (handshake jwt_verify findById st sock_id token now)))) = 1
    \<and> getConnectedUsersCount (fst (handshake jwt_verify findById st sock_id token now))
        = (if map_get (connectedUsers st) (userId sock) = None
           then Suc (getConnectedUsersCount st) else getConnectedUsersCount st)
    \<and> (\<forall>k. k \<noteq> userId sock \<longrightarrow>
          map_get (connectedUsers (fst (handshake jwt_verify findById st sock_id token now))) k
            = map_get (connectedUsers st) k)"
proof -
  let ?r = "\<lparr>socketId = sock_id, cuser = suser sock, connectedAt = now, status = JUndefined\<rparr>"
  let ?st' = "fst (handshake jwt_verify findById st sock_id token now)"
  from assms(1) have s: "sid sock = sock_id" by (simp add: authenticate_Inr)
  have reg: "connectedUsers ?st' = map_set (connectedUsers st) (userId sock) ?r"
    using assms(1) s by (simp add: handshake_def on_connection_def admit_def)
  have d: "distinct (map fst (connectedUsers ?st'))"
    using assms(2) by (simp add: reg registry_ok_def distinct_map_set)
  have g: "map_get (connectedUsers ?st') (userId sock) = Some ?r"
    by (simp add: reg map_get_set)
  have "snd (handshake jwt_verify findById st sock_id token now) = None"
    using assms(1) by (simp add: handshake_def)
  moreover note g
  moreover have "length (filter (\<lambda>e. fst e = userId sock) (connectedUsers ?st')) = 1"
    using d g by (rule entries_once)
  moreover have "getConnectedUsersCount ?st'
        = (if map_get (connectedUsers st) (userId sock) = None
           then Suc (getConnectedUsersCount st) else getConnectedUsersCount st)"
    by (simp add: getConnectedUsersCount_def reg map_size_set)
  moreover have "\<forall>k. k \<noteq> userId sock \<longrightarrow>
      map_get (connectedUsers ?st') k = map_get (connectedUsers st) k"
    by (simp add: reg map_get_set)
  ultimately show ?thesis by blast
qed

theorem handshake_registers_newest_witness:
  "registry_ok pair
   \<and> map_option socketId (map_get (connectedUsers pair) ''u1'') = Some ''s1''
   \<and> getConnectedUsersCount pair = 2
   \<and> snd (handshake demo_verify demo_store pair ''s3'' (JStr ''tok-alice'') 3) = None
   \<and> map_get (connectedUsers (fst (handshake demo_verify demo_store pair ''s3''
          (JStr ''tok-alice'') 3))) ''u1''
        = Some \<lparr>socketId = ''s3'', cuser = alice, connectedAt = 3, status = JUndefined\<rparr>
   \<and> length (filter (\<lambda>e. fst e = ''u1'')
        (connectedUsers (fst (handshake demo_verify demo_store pair ''s3''
          (JStr ''tok-alice'') 3)))) = 1
   \<and> getConnectedUsersCount (fst (handshake demo_verify demo_store pair ''s3''
        (JStr ''tok-alice'') 3)) = 2"
  using handshake_registers_newest [where sock_id = "''s3''" and now = 3, OF demo_alice pair_ok]
  by (simp add: pair_ok pair_registry getConnectedUsersCount_def map_size_def map_get_def)




text \<open>
  C4. Room fan-out excludes the sender. Every room-broadcast event from connection C
  whose payload can be read and whose room can be named is sent to the rooms the
  specification gives it (\<open>fanout\<close>), under the outbound event names of the module, and
  the recipients in each room are all its members but C: every other member receives
  it, C never does. In particular a \<^verbatim>\<open>new_question\<close> with a payload (any value but
  undefined and null) produces the room event \<^verbatim>\<open>new_question\<close> for the other members of
  C's university room and the notice \<^verbatim>\<open>question_trending\<close> for the other members of
  the global room. And whatever a handler other than the two targeted ones emits is
  addressed to the members of a room other than C.
\<close>

theorem room_fanout_excludes_sender:
  assumes "sockets st sock_id = Some sock"
  shows "(\<forall>ev rs. broadcasts ev \<and> fanout sock ev = Inr rs \<longrightarrow>
           (\<exists>st' ems. dispatch st sock_id ev now = Inr (st', ems)
              \<and> map (\<lambda>e. (target e, event e)) ems
                  = map (\<lambda>(r, n). (Others r (sid sock), n)) rs
              \<and> (\<forall>r n. (r, n) \<in> set rs \<longrightarrow>
                    recipients st' (Others r (sid sock)) = rooms st r - {sid sock})))
     \<and> (data \<noteq> JUndefined \<and> data \<noteq> JNull \<longrightarrow>
           (\<exists>p q. dispatch st sock_id (NewQuestion data) now =
              Inr (st,
                [\<lparr>target = Others (university_room sock) (sid sock),
                  event = ''new_question'', payload = p\<rparr>,
                 \<lparr>target = Others ''global'' (sid sock),
                  event = ''question_trending'', payload = q\<rparr>])))
     \<and> recipients st (Others (university_room sock) (sid sock))
          = rooms st (university_room sock) - {sid sock}
     \<and> recipients st (Others ''global'' (sid sock)) = rooms st ''global'' - {sid sock}
     \<and> (\<forall>ev st' ems e.
           \<not> targeted ev \<and> dispatch st sock_id ev now = Inr (st', ems) \<and> e \<in> set ems \<longrightarrow>
             (\<exists>r. target e = Others r (sid sock)
                \<and> recipients st' (target e) = rooms st' r - {sid sock})
             \<and> sid sock \<notin> recipients st' (target e))"
proof -
  have f: "\<exists>st' ems. dispatch st sock_id ev now = Inr (st', ems)
              \<and> map (\<lambda>e. (target e, event e)) ems
                  = map (\<lambda>(r, n). (Others r (sid sock), n)) rs
              \<and> (\<forall>r n. (r, n) \<in> set rs \<longrightarrow>
                    recipients st' (Others r (sid sock)) = rooms st r - {sid sock})"
    if "broadcasts ev" "fanout sock ev = Inr rs" for ev rs
  proof -
    from handle_fanout [OF that, of st now] obtain st' ems where
      h: "handle st sock ev now = Inr (st', ems)"
      and t: "map (\<lambda>e. (target e, event e)) ems = map (\<lambda>(r, n). (Others r (sid sock), n)) rs"
      and r: "rooms st' = (if ev = Disconnect then leave_all (rooms st) (sid sock) else rooms st)"
      by blast
    from r have "recipients st' (Others r (sid sock)) = rooms st r - {sid sock}" for r
      by (auto simp: leave_all_def)
    with h t assms show ?thesis by (simp add: dispatch_def)
  qed
  have q: "\<exists>p q. dispatch st sock_id (NewQuestion data) now =
              Inr (st,
                [\<lparr>target = Others (university_room sock) (sid sock),
                  event = ''new_question'', payload = p\<rparr>,
                 \<lparr>target = Others ''global'' (sid sock),
                  event = ''question_trending'', payload = q\<rparr>])"
    if d: "data \<noteq> JUndefined" "data \<noteq> JNull"
  proof -
    obtain title where t: "get_prop data ''title'' = Inr title"
      using d get_prop_total by blast
    obtain qid where i: "get_prop data ''id'' = Inr qid"
      using d get_prop_total by blast
    show ?thesis
      using assms t i by (simp add: dispatch_def on_new_question_def)
  qed
  have g: "(\<exists>r. target e = Others r (sid sock)
                \<and> recipients st' (target e) = rooms st' r - {sid sock})
             \<and> sid sock \<notin> recipients st' (target e)"
    if "\<not> targeted ev" "dispatch st sock_id ev now = Inr (st', ems)" "e \<in> set ems"
    for ev st' ems e
  proof -
    from that(2) assms have "handle st sock ev now = Inr (st', ems)"
      by (simp add: dispatch_def)
    from handle_targets [OF this that(1,3)] obtain r where "target e = Others r (sid sock)" ..
    then show ?thesis by simp
  qed
  show ?thesis
  proof (intro conjI allI impI)
    fix ev rs
    assume "broadcasts ev \<and> fanout sock ev = Inr rs"
    then show "\<exists>st' ems. dispatch st sock_id ev now = Inr (st', ems)
              \<and> map (\<lambda>e. (target e, event e)) ems
                  = map (\<lambda>(r, n). (Others r (sid sock), n)) rs
              \<and> (\<forall>r n. (r, n) \<in> set rs \<longrightarrow>
                    recipients st' (Others r (sid sock)) = rooms st r - {sid sock})"
      using f by blast
  next
    assume "data \<noteq> JUndefined \<and> data \<noteq> JNull"
    then show "\<exists>p q. dispatch st sock_id (NewQuestion data) now =
              Inr (st,
                [\<lparr>target = Others (university_room sock) (sid sock),
                  event = ''new_question'', payload = p\<rparr>,
                 \<lparr>target = Others ''global'' (sid sock),
                  event = ''question_trending'', payload = q\<rparr>])"
      using q by blast
  next
    fix ev st' ems e
    assume a: "\<not> targeted ev \<and> dispatch st sock_id ev now = Inr (st', ems) \<and> e \<in> set ems"
    with g show "\<exists>r. target e = Others r (sid sock)
                \<and> recipients st' (target e) = rooms st' r - {sid sock}"
      by blast
    from a g show "sid sock \<notin> recipients st' (target e)"
      by blast
  qed simp_all
qed

theorem room_fanout_excludes_sender_witness:
  "map_option (map (\<lambda>e. (target e, event e)))
      (emissions_of (dispatch pair ''s1'' (NewQuestion (JObj [''title'' \<mapsto> JStr ''T''])) 5))
     = Some [(Others ''university:X'' ''s1'', ''new_question''),
             (Others ''global'' ''s1'', ''question_trending'')]
   \<and> recipients pair (Others ''university:X'' ''s1'') = {''s2''}
   \<and> recipients pair (Others ''global'' ''s1'') = {''s2''}
   \<and> fanout \<lparr>sid = ''s1'', userId = ''u1'', suser = alice\<rparr>
        (TypingStart (JObj [''questionId'' \<mapsto> JNum ''42'']))
      = Inr [(''question:42'', ''user_typing'')]
   \<and> map_option (map (\<lambda>e. (target e, event e)))
      (emissions_of (dispatch pair ''s1'' (TypingStart (JObj [''questionId'' \<mapsto> JNum ''42''])) 5))
     = Some [(Others ''question:42'' ''s1'', ''user_typing'')]"
proof -
  let ?q = "NewQuestion (JObj [''title'' \<mapsto> JStr ''T''])"
  let ?t = "TypingStart (JObj [''questionId'' \<mapsto> JNum ''42''])"
  let ?a = "\<lparr>sid = ''s1'', userId = ''u1'', suser = alice\<rparr>"
  note inst = room_fanout_excludes_sender [OF pair_sockets(1), where now = 5
      and data = "JObj [''title'' \<mapsto> JStr ''T'']"]
  have bq: "broadcasts ?q" and bt: "broadcasts ?t"
    by simp_all
  have t: "fanout ?a ?t = Inr [(''question:42'', ''user_typing'')]"
    by (simp add: room_name_def)
  have n: "fanout ?a ?q
      = Inr [(''university:X'', ''new_question''), (''global'', ''question_trending'')]"
    by (simp add: university_room_def alice_def)
  from inst [THEN conjunct1, rule_format, OF conjI [OF bq n]] obtain st1 ems1 where
    "dispatch pair ''s1'' ?q 5 = Inr (st1, ems1)"
    "map (\<lambda>e. (target e, event e)) ems1
       = map (\<lambda>(r, n). (Others r (sid ?a), n))
           [(''university:X'', ''new_question''), (''global'', ''question_trending'')]"
    by blast
  then have 1: "map_option (map (\<lambda>e. (target e, event e))) (emissions_of (dispatch pair ''s1'' ?q 5))
     = Some [(Others ''university:X'' ''s1'', ''new_question''),
             (Others ''global'' ''s1'', ''question_trending'')]"
    by (simp add: emissions_of_def)
  from inst [THEN conjunct1, rule_format, OF conjI [OF bt t]] obtain st2 ems2 where
    "dispatch pair ''s1'' ?t 5 = Inr (st2, ems2)"
    "map (\<lambda>e. (target e, event e)) ems2
       = map (\<lambda>(r, n). (Others r (sid ?a), n)) [(''question:42'', ''user_typing'')]"
    by blast
  then have 2: "map_option (map (\<lambda>e. (target e, event e))) (emissions_of (dispatch pair ''s1'' ?t 5))
     = Some [(Others ''question:42'' ''s1'', ''user_typing'')]"
    by (simp add: emissions_of_def)
  from 1 2 t show ?thesis
    by (simp add: pair_rooms)
qed

text \<open>
  C5, as the code has it. Processing the disconnect of a connected socket leaves the
  registry without an entry for the socket's user and emits \<^verbatim>\<open>user_offline\<close> to the
  other members of the user's university room. The number of entries falls by exactly
  one when the registry held an entry for the user, and stays as it was when it held
  none; the entries of the other users are as they were.
\<close>

theorem disconnect_unregisters:
  assumes "sockets st sock_id = Some sock" and "registry_ok st"
  shows "\<exists>st'. dispatch st sock_id Disconnect now =
            Inr (st',
              [\<lparr>target = Others (university_room sock) (sid sock),
                event = ''user_offline'',
                payload = Obj
                  [''userId'' \<mapsto> Val (JStr (userId sock)),
                   ''userName'' \<mapsto> Val (JStr (name (suser sock)))]\<rparr>])
          \<and> map_get (connectedUsers st') (userId sock) = None
          \<and> (map_get (connectedUsers st) (userId sock) \<noteq> None \<longrightarrow>
                Suc (getConnectedUsersCount st') = getConnectedUsersCount st)
          \<and> (map_get (connectedUsers st) (userId sock) = None \<longrightarrow>
                getConnectedUsersCount st' = getConnectedUsersCount st)
          \<and> (\<forall>k. k \<noteq> userId sock \<longrightarrow>
                map_get (connectedUsers st') k = map_get (connectedUsers st) k)
          \<and> recipients st' (Others (university_room sock) (sid sock))
               = rooms st (university_room sock) - {sid sock}"
  using assms
  by (auto simp: dispatch_def on_disconnect_def close_def map_get_delete
      getConnectedUsersCount_def registry_ok_def map_size_delete_present map_delete_absent
      leave_all_def)

theorem disconnect_unregisters_witness:
  "registry_ok pair
   \<and> getConnectedUsersCount pair = 2
   \<and> map_option map_size (registry_of (dispatch pair ''s2'' Disconnect 5)) = Some 1
   \<and> map_option (\<lambda>m. map_get m ''u2'') (registry_of (dispatch pair ''s2'' Disconnect 5))
        = Some None
   \<and> map_option (map (\<lambda>e. (target e, event e))) (emissions_of (dispatch pair ''s2'' Disconnect 5))
        = Some [(Others ''university:X'' ''s2'', ''user_offline'')]
   \<and> rooms pair ''university:X'' - {''s2''} = {''s1''}"
  using disconnect_unregisters [OF pair_sockets(2) pair_ok, where now = 5]
  by (auto simp: registry_of_def emissions_of_def getConnectedUsersCount_def map_size_def
      pair_ok pair_registry pair_rooms university_room_def bob_def map_get_def)

text \<open>
  The claim C5 as stated fails when a user has two connections: the disconnect of the
  first removes the user's entry, so at the disconnect of the second, which is still
  connected, the registry holds no entry and its count is not decremented.
\<close>

theorem disconnect_second_device_keeps_count:
  "sockets orphaned ''s2'' = Some \<lparr>sid = ''s2'', userId = ''u1'', suser = alice\<rparr>
   \<and> getConnectedUsersCount orphaned = 0
   \<and> map_option map_size (registry_of (dispatch orphaned ''s2'' Disconnect 4)) = Some 0"
  by (simp add: orphaned_sockets orphaned_registry getConnectedUsersCount_def map_size_def
      registry_of_def dispatch_def on_disconnect_def close_def map_delete_def)

text \<open>
  C6, as the code has it. A \<^verbatim>\<open>status_update\<close> with payload \<open>s\<close> from a connected
  socket of user A emits \<^verbatim>\<open>user_status_changed\<close>, with A's id and name and \<open>s\<close>, to
  the other members of A's university room. When the registry holds an entry for A, the
  entry afterwards has status \<open>s\<close> and is otherwise as before; when it holds none, the
  registry is unchanged. No other entry, and nothing but \<open>status\<close> fields, changes.
\<close>

theorem status_update_registry:
  assumes "sockets st sock_id = Some sock"
  shows "\<exists>st'. dispatch st sock_id (StatusUpdate s) now =
            Inr (st',
              [\<lparr>target = Others (university_room sock) (sid sock),
                event = ''user_status_changed'',
                payload = Obj
                  [''userId'' \<mapsto> Val (JStr (userId sock)),
                   ''userName'' \<mapsto> Val (JStr (name (suser sock))),
                   ''status'' \<mapsto> Val s]\<rparr>])
          \<and> (\<forall>userData. map_get (connectedUsers st) (userId sock) = Some userData \<longrightarrow>
                map_get (connectedUsers st') (userId sock) = Some (userData\<lparr>status := s\<rparr>))
          \<and> (map_get (connectedUsers st) (userId sock) = None \<longrightarrow>
                connectedUsers st' = connectedUsers st)
          \<and> (\<forall>k. k \<noteq> userId sock \<longrightarrow>
                map_get (connectedUsers st') k = map_get (connectedUsers st) k)
          \<and> erase_status (connectedUsers st') = erase_status (connectedUsers st)
          \<and> sockets st' = sockets st \<and> rooms st' = rooms st
          \<and> recipients st' (Others (university_room sock) (sid sock))
               = rooms st (university_room sock) - {sid sock}"
  using assms
  by (auto simp: dispatch_def on_status_update_def Let_def map_get_set erase_status_set
      split: option.splits)

theorem status_update_registry_witness:
  "map_option (\<lambda>m. map_option status (map_get m ''u1''))
      (registry_of (dispatch pair ''s1'' (StatusUpdate (JStr ''busy'')) 5))
     = Some (Some (JStr ''busy''))
   \<and> map_option (\<lambda>m. map_get m ''u2'')
      (registry_of (dispatch pair ''s1'' (StatusUpdate (JStr ''busy'')) 5))
     = Some (map_get (connectedUsers pair) ''u2'')
   \<and> map_option (map (\<lambda>e. (recipients pair (target e), event e)))
      (emissions_of (dispatch pair ''s1'' (StatusUpdate (JStr ''busy'')) 5))
     = Some [({''s2''}, ''user_status_changed'')]"
  using status_update_registry [OF pair_sockets(1), where now = 5 and s = "JStr ''busy''"]
  by (auto simp: registry_of_def emissions_of_def pair_registry pair_rooms university_room_def
      alice_def map_get_def)

text \<open>
  The claim C6 as stated fails for a connected user without an entry: Alice's second
  connection is open, her entry went with the disconnect of her first, and her
  \<^verbatim>\<open>status_update\<close> leaves the registry empty.
\<close>

theorem status_update_without_entry:
  "sockets orphaned ''s2'' = Some \<lparr>sid = ''s2'', userId = ''u1'', suser = alice\<rparr>
   \<and> registry_of (dispatch orphaned ''s2'' (StatusUpdate (JStr ''busy'')) 4) = Some []"
  by (simp add: orphaned_sockets orphaned_registry registry_of_def dispatch_def
      on_status_update_def map_get_def)

text \<open>
  C7, as the code has it. Besides the connection and disconnect handling, one inbound
  event writes the registry: \<^verbatim>\<open>status_update\<close> sets the \<open>status\<close> of the sender's
  entry. Every other inbound event leaves the registry as it was, and no inbound event
  but the disconnect changes anything in it except \<open>status\<close> fields. (A handler that
  raises leaves the registry as it was too: \<open>raise_keeps_registry\<close>.)
\<close>

theorem registry_writers:
  assumes "dispatch st sock_id ev now = Inr (st', ems)"
  shows "(ev \<noteq> Disconnect \<longrightarrow>
            erase_status (connectedUsers st') = erase_status (connectedUsers st))
    \<and> (ev \<noteq> Disconnect \<and> (\<forall>s. ev \<noteq> StatusUpdate s) \<longrightarrow>
            connectedUsers st' = connectedUsers st)"
proof (cases "sockets st sock_id")
  case None
  with assms show ?thesis by (simp add: dispatch_def)
next
  case (Some sock)
  with assms have h: "handle st sock ev now = Inr (st', ems)" by (simp add: dispatch_def)
  show ?thesis
  proof (cases ev)
    case (StatusUpdate s)
    with h show ?thesis
      by (auto simp: on_status_update_def Let_def erase_status_set split: option.splits)
  qed (use h in \<open>auto simp: handler_defs Let_def
      split: sum.splits option.splits jsval.splits\<close>)
qed

theorem registry_writers_witness:
  "registry_of (dispatch pair ''s1''
      (PrivateMessage (JObj [''targetUserId'' \<mapsto> JStr ''u2'', ''message'' \<mapsto> JStr ''hi''])) 5)
     = Some (connectedUsers pair)
   \<and> map_option erase_status
        (registry_of (dispatch pair ''s1'' (StatusUpdate (JStr ''busy'')) 5))
     = Some (erase_status (connectedUsers pair))"
proof -
  let ?pm = "PrivateMessage (JObj [''targetUserId'' \<mapsto> JStr ''u2'', ''message'' \<mapsto> JStr ''hi''])"
  obtain st1 ems1 where r1: "dispatch pair ''s1'' ?pm 5 = Inr (st1, ems1)"
    by (simp add: dispatch_def pair_sockets on_private_message_def lookup_target_def
        map_get_def pair_registry)
  obtain st2 ems2 where r2: "dispatch pair ''s1'' (StatusUpdate (JStr ''busy'')) 5 = Inr (st2, ems2)"
    by (simp add: dispatch_def pair_sockets on_status_update_def Let_def)
  from registry_writers [OF r1] registry_writers [OF r2] r1 r2
  show ?thesis by (simp add: registry_of_def)
qed

text \<open>
  The claim C7 as stated fails: Alice's \<^verbatim>\<open>status_update\<close>, an inbound application
  event that is neither connect nor disconnect, changes the registry.
\<close>

theorem status_update_writes_registry:
  "registry_of (dispatch pair ''s1'' (StatusUpdate (JStr ''busy'')) 3)
     \<noteq> Some (connectedUsers pair)"
  by (simp add: pair_sockets pair_registry registry_of_def dispatch_def on_status_update_def
      map_get_def map_set_def)

text \<open>
  C8, as the code has it. The middleware has two error reasons for its three causes of
  rejection: a missing credential and a credential that fails verification are both
  rejected with \<^verbatim>\<open>Authentication error\<close>; a verified credential whose identity is not
  found is rejected with \<^verbatim>\<open>User not found\<close>, a different reason.
\<close>

theorem auth_two_reasons:
  "(\<not> truthy token \<longrightarrow>
      authenticate jwt_verify findById sock_id token = Inl (Error ''Authentication error''))
   \<and> (truthy token \<and> jwt_verify token = None \<longrightarrow>
        authenticate jwt_verify findById sock_id token = Inl (Error ''Authentication error''))
   \<and> (truthy token \<and> jwt_verify token = Some decoded
        \<and> get_prop decoded ''userId'' = Inr claimed \<and> findById claimed = Some None \<longrightarrow>
        authenticate jwt_verify findById sock_id token = Inl (Error ''User not found''))
   \<and> Error ''Authentication error'' \<noteq> Error ''User not found''"
  by (simp add: authenticate_missing authenticate_invalid authenticate_not_found)

theorem auth_two_reasons_witness:
  "authenticate demo_verify demo_store ''s1'' JUndefined = Inl (Error ''Authentication error'')
   \<and> authenticate demo_verify demo_store ''s1'' (JStr ''forged'')
        = Inl (Error ''Authentication error'')
   \<and> authenticate demo_verify demo_store ''s1'' (JStr ''tok-ghost'')
        = Inl (Error ''User not found'')"
  using auth_two_reasons [where token = JUndefined and jwt_verify = demo_verify
      and findById = demo_store and sock_id = "''s1''"]
    auth_two_reasons [where token = "JStr ''forged''" and jwt_verify = demo_verify
      and findById = demo_store and sock_id = "''s1''"]
    auth_two_reasons [where token = "JStr ''tok-ghost''" and jwt_verify = demo_verify
      and findById = demo_store and sock_id = "''s1''"
      and decoded = "JObj [''userId'' \<mapsto> JStr ''u9'']" and claimed = "JStr ''u9''"]
  by (simp add: demo_verify_def demo_store_def)

text \<open>
  The claim C8 as stated fails: the handshake without a credential and the handshake
  with a credential that fails verification are rejected with the same error.
\<close>

theorem auth_missing_invalid_same_reason:
  "\<not> truthy JUndefined \<and> truthy (JStr ''forged'') \<and> demo_verify (JStr ''forged'') = None
   \<and> authenticate demo_verify demo_store ''s1'' JUndefined
       = authenticate demo_verify demo_store ''s1'' (JStr ''forged'')"
  by (simp add: authenticate_def demo_verify_def)

text \<open>
  C9. The stamped fields cannot be spoofed. For two payloads of \<^verbatim>\<open>new_question\<close> (and
  likewise \<^verbatim>\<open>new_answer\<close>, \<^verbatim>\<open>live_chat\<close>) that differ only in their \<^verbatim>\<open>author\<close>,
  \<^verbatim>\<open>authorInitial\<close> or \<^verbatim>\<open>timestamp\<close> properties, the handler has the same outcome, and
  in the room event these three fields are the sender's name, the sender's initials and
  the server's time, whatever the payload held under these names. \<^verbatim>\<open>new_question\<close>
  always emits its room event; \<^verbatim>\<open>new_answer\<close> and \<^verbatim>\<open>live_chat\<close> emit theirs exactly
  when the identifier that names their room can be printed.
\<close>

theorem stamps_not_spoofable:
  assumes "\<forall>k. k \<notin> stamps \<longrightarrow> m1 k = m2 k"
  shows "on_new_question st sock (JObj m1) now = on_new_question st sock (JObj m2) now
    \<and> on_new_answer st sock (JObj m1) now = on_new_answer st sock (JObj m2) now
    \<and> on_live_chat st sock (JObj m1) now = on_live_chat st sock (JObj m2) now
    \<and> (\<exists>e t. emissions_of (on_new_question st sock (JObj m1) now) = Some [e, t]
          \<and> event e = ''new_question''
          \<and> stamp_of e = (Some (Val (JStr (name (suser sock)))),
                Some (Val (JStr (initials (suser sock)))), Some (Date now)))
    \<and> (\<forall>r. room_name ''question:'' (JObj m1) ''questionId'' = Inr r \<longrightarrow>
          (\<exists>e. emissions_of (on_new_answer st sock (JObj m1) now) = Some [e]
            \<and> target e = Others r (sid sock) \<and> event e = ''new_answer''
            \<and> stamp_of e = (Some (Val (JStr (name (suser sock)))),
                  Some (Val (JStr (initials (suser sock)))), Some (Date now))))
    \<and> (\<forall>x. room_name ''question:'' (JObj m1) ''questionId'' = Inl x \<longrightarrow>
          on_new_answer st sock (JObj m1) now = Inl (x, st))
    \<and> (\<forall>r. room_name ''ama:'' (JObj m1) ''sessionId'' = Inr r \<longrightarrow>
          (\<exists>e. emissions_of (on_live_chat st sock (JObj m1) now) = Some [e]
            \<and> target e = Others r (sid sock) \<and> event e = ''live_chat''
            \<and> stamp_of e = (Some (Val (JStr (name (suser sock)))),
                  Some (Val (JStr (initials (suser sock)))), Some (Date now))))
    \<and> (\<forall>x. room_name ''ama:'' (JObj m1) ''sessionId'' = Inl x \<longrightarrow>
          on_live_chat st sock (JObj m1) now = Inl (x, st))"
proof -
  note a = agree_off_stamps [OF assms]
  have rq: "room_name p (JObj m1) ''questionId'' = room_name p (JObj m2) ''questionId''" for p
    by (simp add: room_name_def a)
  have rs: "room_name p (JObj m1) ''sessionId'' = room_name p (JObj m2) ''sessionId''" for p
    by (simp add: room_name_def a)
  have q: "on_new_question st sock (JObj m1) now = on_new_question st sock (JObj m2) now"
    by (simp add: on_new_question_def a spread_cong_university [OF assms])
  have n: "on_new_answer st sock (JObj m1) now = on_new_answer st sock (JObj m2) now"
    by (simp add: on_new_answer_def rq spread_cong [OF assms] split: sum.splits)
  have l: "on_live_chat st sock (JObj m1) now = on_live_chat st sock (JObj m2) now"
    by (simp add: on_live_chat_def a rs split: sum.splits)
  have sq: "\<exists>e t. emissions_of (on_new_question st sock (JObj m1) now) = Some [e, t]
          \<and> event e = ''new_question''
          \<and> stamp_of e = (Some (Val (JStr (name (suser sock)))),
                Some (Val (JStr (initials (suser sock)))), Some (Date now))"
    by (simp add: on_new_question_def emissions_of_def stamp_of_def)
  have sn: "\<exists>e. emissions_of (on_new_answer st sock (JObj m1) now) = Some [e]
            \<and> target e = Others r (sid sock) \<and> event e = ''new_answer''
            \<and> stamp_of e = (Some (Val (JStr (name (suser sock)))),
                  Some (Val (JStr (initials (suser sock)))), Some (Date now))"
    if "room_name ''question:'' (JObj m1) ''questionId'' = Inr r" for r
    using that by (simp add: on_new_answer_def emissions_of_def stamp_of_def)
  have en: "on_new_answer st sock (JObj m1) now = Inl (x, st)"
    if "room_name ''question:'' (JObj m1) ''questionId'' = Inl x" for x
    using that by (simp add: on_new_answer_def)
  have sl: "\<exists>e. emissions_of (on_live_chat st sock (JObj m1) now) = Some [e]
            \<and> target e = Others r (sid sock) \<and> event e = ''live_chat''
            \<and> stamp_of e = (Some (Val (JStr (name (suser sock)))),
                  Some (Val (JStr (initials (suser sock)))), Some (Date now))"
    if "room_name ''ama:'' (JObj m1) ''sessionId'' = Inr r" for r
    using that by (simp add: on_live_chat_def emissions_of_def stamp_of_def)
  have el: "on_live_chat st sock (JObj m1) now = Inl (x, st)"
    if "room_name ''ama:'' (JObj m1) ''sessionId'' = Inl x" for x
    using that by (simp add: on_live_chat_def)
  from q n l sq sn en sl el show ?thesis by blast
qed

theorem stamps_not_spoofable_witness:
  "on_new_question pair \<lparr>sid = ''s1'', userId = ''u1'', suser = alice\<rparr>
      (JObj [''title'' \<mapsto> JStr ''T'', ''author'' \<mapsto> JStr ''Mallory'', ''timestamp'' \<mapsto> JNum ''0'']) 5
     = on_new_question pair \<lparr>sid = ''s1'', userId = ''u1'', suser = alice\<rparr>
      (JObj [''title'' \<mapsto> JStr ''T'']) 5
   \<and> map_option (map stamp_of)
        (emissions_of (on_new_question pair \<lparr>sid = ''s1'', userId = ''u1'', suser = alice\<rparr>
          (JObj [''title'' \<mapsto> JStr ''T'', ''author'' \<mapsto> JStr ''Mallory'',
                 ''timestamp'' \<mapsto> JNum ''0'']) 5))
     = Some [(Some (Val (JStr ''Alice'')), Some (Val (JStr ''A'')), Some (Date 5)),
             (None, None, None)]
   \<and> map_option (map stamp_of)
        (emissions_of (on_new_answer pair \<lparr>sid = ''s1'', userId = ''u1'', suser = alice\<rparr>
          (JObj [''questionId'' \<mapsto> JNum ''42'', ''author'' \<mapsto> JStr ''Mallory'']) 5))
     = Some [(Some (Val (JStr ''Alice'')), Some (Val (JStr ''A'')), Some (Date 5))]"
proof -
  have "\<forall>k. k \<notin> stamps \<longrightarrow>
      [''title'' \<mapsto> JStr ''T'', ''author'' \<mapsto> JStr ''Mallory'', ''timestamp'' \<mapsto> JNum ''0''] k
        = [''title'' \<mapsto> JStr ''T''] k"
    by (simp add: stamps_def)
  from stamps_not_spoofable [OF this, of pair "\<lparr>sid = ''s1'', userId = ''u1'', suser = alice\<rparr>" 5]
  have same: "on_new_question pair \<lparr>sid = ''s1'', userId = ''u1'', suser = alice\<rparr>
      (JObj [''title'' \<mapsto> JStr ''T'', ''author'' \<mapsto> JStr ''Mallory'', ''timestamp'' \<mapsto> JNum ''0'']) 5
     = on_new_question pair \<lparr>sid = ''s1'', userId = ''u1'', suser = alice\<rparr>
      (JObj [''title'' \<mapsto> JStr ''T'']) 5"
    by blast
  have "map_option (map stamp_of)
        (emissions_of (on_new_question pair \<lparr>sid = ''s1'', userId = ''u1'', suser = alice\<rparr>
          (JObj [''title'' \<mapsto> JStr ''T'', ''author'' \<mapsto> JStr ''Mallory'',
                 ''timestamp'' \<mapsto> JNum ''0'']) 5))
     = Some [(Some (Val (JStr ''Alice'')), Some (Val (JStr ''A'')), Some (Date 5)),
             (None, None, None)]"
    by (simp add: on_new_question_def emissions_of_def stamp_of_def alice_def)
  moreover have "map_option (map stamp_of)
        (emissions_of (on_new_answer pair \<lparr>sid = ''s1'', userId = ''u1'', suser = alice\<rparr>
          (JObj [''questionId'' \<mapsto> JNum ''42'', ''author'' \<mapsto> JStr ''Mallory'']) 5))
     = Some [(Some (Val (JStr ''Alice'')), Some (Val (JStr ''A'')), Some (Date 5))]"
    by (simp add: on_new_answer_def room_name_def emissions_of_def stamp_of_def alice_def)
  ultimately show ?thesis using same by simp
qed

text \<open>
  C10. The accessors exclude nobody. \<^verbatim>\<open>emitToUniversity\<close> sends its event and data to
  every member of the university room (the room its argument names; it emits nothing
  and raises where the argument cannot be printed) and \<^verbatim>\<open>emitToAll\<close> to every
  connected socket; a member \<open>s\<close> of a room is among the recipients of an emission to the
  room, while it is not among those of a handler's broadcast that \<open>s\<close> itself causes.
\<close>

theorem accessors_reach_every_member:
  "map_sum id (map (\<lambda>e. (recipients st (target e), event e, payload e)))
      (emitToUniversity uni ev data)
      = map_sum id (\<lambda>u. [(rooms st (''university:'' @ u), ev, Raw data)]) (to_string uni)
   \<and> emitToUniversity (JStr tag) ev data
      = Inr [\<lparr>target = Room (''university:'' @ tag), event = ev, payload = Raw data\<rparr>]
   \<and> recipients st (Room (''university:'' @ tag)) = rooms st (''university:'' @ tag)
   \<and> map (\<lambda>e. (recipients st (target e), event e, payload e)) (emitToAll ev data)
      = [(dom (sockets st), ev, Raw data)]
   \<and> (s \<in> rooms st r \<longrightarrow> s \<in> recipients st (Room r) \<and> s \<notin> recipients st (Others r s))
   \<and> (sockets st s \<noteq> None \<longrightarrow> s \<in> recipients st Everyone)"
  by (auto simp: emitToUniversity_def emitToAll_def split: sum.splits)

theorem accessors_reach_every_member_witness:
  "map_sum id (map (\<lambda>e. (recipients pair (target e), event e, payload e)))
      (emitToUniversity (JStr ''X'') ''notice'' JNull)
      = Inr [({''s1'', ''s2''}, ''notice'', Raw JNull)]
   \<and> map (\<lambda>e. (recipients pair (target e), event e, payload e)) (emitToAll ''notice'' JNull)
      = [({''s1'', ''s2''}, ''notice'', Raw JNull)]
   \<and> ''s1'' \<in> recipients pair (Room ''university:X'')
   \<and> ''s1'' \<notin> recipients pair (Others ''university:X'' ''s1'')
   \<and> ''s1'' \<in> recipients pair Everyone"
  using accessors_reach_every_member [of pair "JStr ''X''" "''notice''" JNull "''X''" "''s1''" "''university:X''"]
  by (simp add: pair_rooms pair_dom pair_sockets)

end
